theory Spec2Isabelle
  imports Complex_Main
begin

section \<open>Numbers, errors and the global tolerance\<close>

text \<open>
  The library computes on JavaScript numbers. They are modelled by the real numbers they
  stand for (the spec speaks of real-valued coordinates as well): \<open>Math.pow(v, 2)\<close> is
  \<open>v\<^sup>2\<close>, \<open>Math.sqrt\<close> is \<open>sqrt\<close>, \<open>Math.abs\<close> is \<open>abs\<close>, \<open>Math.PI\<close> is \<open>pi\<close>. Rounding and overflow
  are not modelled. The one operation whose result can leave the finite numbers on finite
  operands is the division: \<open>n / 0\<close> is \<open>Infinity\<close>, \<open>-Infinity\<close> or \<open>NaN\<close> in the source (and
  \<open>0\<close> in HOL), so \<open>js_div\<close> returns \<open>None\<close> exactly when the divisor is zero.
\<close>

definition js_div :: "real \<Rightarrow> real \<Rightarrow> real option" where
  "js_div n d = (if d = 0 then None else Some (n / d))"

text \<open>The two exceptions the source throws, with their messages.\<close>

datatype error = RangeError string | Error string

text \<open>
  The module-level variable \<open>DEFAULT_EPSILON\<close> is the only mutable state. Every method that
  reads it takes the current globals as its first argument.
\<close>

record globals =
  DEFAULT_EPSILON :: real

definition initial_globals :: globals where
  "initial_globals = \<lparr>DEFAULT_EPSILON = 1 / 100\<rparr>"

definition setEpsilon :: "real \<Rightarrow> globals \<Rightarrow> globals" where
  "setEpsilon v g = g\<lparr>DEFAULT_EPSILON := v\<rparr>"

text \<open>
  A parameter declared \<open>epsilon = DEFAULT_EPSILON\<close> is a \<open>real option\<close>: \<open>None\<close> when the
  caller omits it, and then the default is read from the globals at the call.
\<close>

definition epsilon_or_default :: "globals \<Rightarrow> real option \<Rightarrow> real" where
  "epsilon_or_default g epsilon =
     (case epsilon of None \<Rightarrow> DEFAULT_EPSILON g | Some e \<Rightarrow> e)"

section \<open>Point and Segment\<close>

text \<open>
  The fields \<open>x\<close>, \<open>y\<close> of a point and \<open>a\<close>, \<open>b\<close> of a segment are the selectors
  \<open>x_of\<close>, \<open>y_of\<close>, \<open>a_of\<close>, \<open>b_of\<close>.
\<close>

datatype Point = Point (x_of: real) (y_of: real)

definition distanceTo :: "Point \<Rightarrow> Point \<Rightarrow> real" where
  "distanceTo this other =
     sqrt ((x_of this - x_of other)\<^sup>2 + (y_of this - y_of other)\<^sup>2)"

datatype Segment = Segment (a_of: Point) (b_of: Point)

definition Segment_intersects :: "globals \<Rightarrow> Segment \<Rightarrow> Point \<Rightarrow> real option \<Rightarrow> bool" where
  "Segment_intersects g this p epsilon =
     (\<bar>distanceTo (a_of this) p + distanceTo (b_of this) p
        - distanceTo (a_of this) (b_of this)\<bar> < epsilon_or_default g epsilon)"

definition Segment_length :: "Segment \<Rightarrow> real" where
  "Segment_length this = distanceTo (a_of this) (b_of this)"

section \<open>Array methods with an index callback\<close>

text \<open>
  \<open>Array.prototype.map\<close> and \<open>reduce\<close> call their callback with the element, its index
  and the array; \<open>some\<close> is \<open>list_ex\<close>.
\<close>

definition array_map :: "('a \<Rightarrow> nat \<Rightarrow> 'a list \<Rightarrow> 'b) \<Rightarrow> 'a list \<Rightarrow> 'b list" where
  "array_map f xs = map (\<lambda>i. f (xs ! i) i xs) [0 ..< length xs]"

definition array_reduce :: "('b \<Rightarrow> 'a \<Rightarrow> nat \<Rightarrow> 'a list \<Rightarrow> 'b) \<Rightarrow> 'b \<Rightarrow> 'a list \<Rightarrow> 'b" where
  "array_reduce f init xs = foldl (\<lambda>acc i. f acc (xs ! i) i xs) init [0 ..< length xs]"

section \<open>SegmentedShape\<close>

record SegmentedShape =
  points :: "Point list"
  segments :: "Segment list"

text \<open>The successor point used by the constructor, \<open>area\<close> and \<open>perimeter\<close>.\<close>

definition next_point :: "nat \<Rightarrow> Point list \<Rightarrow> Point" where
  "next_point i pts = (if i = length pts - 1 then pts ! 0 else pts ! (i + 1))"

definition new_SegmentedShape :: "Point \<Rightarrow> Point \<Rightarrow> Point \<Rightarrow> Point list \<Rightarrow> SegmentedShape" where
  "new_SegmentedShape p1 p2 p3 restPoints =
     (let pts = [p1, p2, p3] @ restPoints
      in \<lparr>points = pts,
          segments = array_map (\<lambda>p i pts. Segment p (next_point i pts)) pts\<rparr>)"

definition SegmentedShape_intersects ::
  "globals \<Rightarrow> SegmentedShape \<Rightarrow> Point \<Rightarrow> real option \<Rightarrow> bool" where
  "SegmentedShape_intersects g this point epsilon =
     (let eps = epsilon_or_default g epsilon
      in list_ex (\<lambda>segment. Segment_intersects g segment point (Some eps)) (segments this))"

text \<open>
  The ray-casting loop \<open>for (i = 0, j = length - 1; i < length; j = i++)\<close>. The second
  operand of \<open>&&\<close> is evaluated only when the first is true. The result is \<open>None\<close> when
  a division by zero is evaluated, \<open>Some hit\<close> otherwise.
\<close>

function contains_loop :: "Point list \<Rightarrow> Point \<Rightarrow> nat \<Rightarrow> nat \<Rightarrow> bool \<Rightarrow> bool option" where
  "contains_loop pts point i j hit =
     (if i < length pts then
        (if (y_of (pts ! i) > y_of point) \<noteq> (y_of (pts ! j) > y_of point) then
           (case js_div ((x_of (pts ! j) - x_of (pts ! i)) * (y_of point - y_of (pts ! i)))
                        (y_of (pts ! j) - y_of (pts ! i)) of
              None \<Rightarrow> None
            | Some q \<Rightarrow>
                contains_loop pts point (Suc i) i
                  (if x_of point < q + x_of (pts ! i) then \<not> hit else hit))
         else contains_loop pts point (Suc i) i hit)
      else Some hit)"
  by pat_completeness auto
termination
  by (relation "measure (\<lambda>(pts, point, i, j, hit). length pts - i)") auto

definition SegmentedShape_contains :: "SegmentedShape \<Rightarrow> Point \<Rightarrow> bool option" where
  "SegmentedShape_contains this point =
     contains_loop (points this) point 0 (length (points this) - 1) False"

text \<open>
  \<open>safeAt\<close> checks the upper bound only. Reading a JavaScript array at a negative index
  throws nothing and yields \<open>undefined\<close>, which is \<open>None\<close> here.
\<close>

definition safeAt :: "'a list \<Rightarrow> int \<Rightarrow> error + 'a option" where
  "safeAt items index =
     (if index \<ge> int (length items) then Inl (RangeError ''out of range access'')
      else Inr (if 0 \<le> index then Some (items ! nat index) else None))"

definition pointAt :: "SegmentedShape \<Rightarrow> int \<Rightarrow> error + Point option" where
  "pointAt this index = safeAt (points this) index"

definition segmentAt :: "SegmentedShape \<Rightarrow> int \<Rightarrow> error + Segment option" where
  "segmentAt this index = safeAt (segments this) index"

definition SegmentedShape_area :: "SegmentedShape \<Rightarrow> real" where
  "SegmentedShape_area this =
     \<bar>array_reduce
        (\<lambda>acc p index pts.
           let p2 = next_point index pts
           in acc + (x_of p * y_of p2 - y_of p * x_of p2) / 2)
        0 (points this)\<bar>"

definition SegmentedShape_perimeter :: "SegmentedShape \<Rightarrow> real" where
  "SegmentedShape_perimeter this =
     array_reduce
       (\<lambda>acc p i pts. let p2 = next_point i pts in acc + distanceTo p p2)
       0 (points this)"

section \<open>RectangleShape, SquareShape, TriangleShape\<close>

text \<open>
  The subclasses add a constructor and accessors and inherit every method, so an object
  of theirs is the \<open>SegmentedShape\<close> their constructor passes to \<open>super\<close>.
  \<open>TriangleShape\<close> also keeps its three points in private fields that no method reads.
\<close>

definition new_RectangleShape :: "Point \<Rightarrow> Point \<Rightarrow> SegmentedShape" where
  "new_RectangleShape topLeft bottomRight =
     new_SegmentedShape
       topLeft
       (Point (x_of bottomRight) (y_of topLeft))
       bottomRight
       [Point (x_of topLeft) (y_of bottomRight)]"

definition new_SquareShape :: "Point \<Rightarrow> real \<Rightarrow> SegmentedShape" where
  "new_SquareShape topLeft side =
     new_RectangleShape topLeft (Point (x_of topLeft + side) (y_of topLeft - side))"

definition new_TriangleShape :: "Point \<Rightarrow> Point \<Rightarrow> Point \<Rightarrow> SegmentedShape" where
  "new_TriangleShape a b c = new_SegmentedShape a b c []"

section \<open>EllipseShape and CircleShape\<close>

text \<open>
  \<open>CircleShape\<close> extends \<open>EllipseShape\<close> by the field \<open>radius\<close> and overrides \<open>perimeter\<close>.
  The inherited methods are defined on the record scheme, so they apply to both classes;
  \<open>perimeter\<close> has one definition per class, chosen by the class of the object. The fields
  \<open>a\<close> and \<open>b\<close> are \<open>semi_a\<close> and \<open>semi_b\<close>.
\<close>

record EllipseShape =
  center :: Point
  semi_a :: real
  semi_b :: real

record CircleShape = EllipseShape +
  radius :: real

definition new_EllipseShape :: "Point \<Rightarrow> real \<Rightarrow> real \<Rightarrow> EllipseShape" where
  "new_EllipseShape c a b = \<lparr>center = c, semi_a = a, semi_b = b\<rparr>"

definition new_CircleShape :: "Point \<Rightarrow> real \<Rightarrow> CircleShape" where
  "new_CircleShape c r = \<lparr>center = c, semi_a = r, semi_b = r, radius = r\<rparr>"


definition EllipseShape_perimeter :: "EllipseShape \<Rightarrow> error + real" where
  "EllipseShape_perimeter this = Inl (Error ''too hard to handle!'')"

definition CircleShape_perimeter :: "CircleShape \<Rightarrow> error + real" where
  "CircleShape_perimeter this = Inr (2 * pi * radius this)"

text \<open>
  Both quotients of \<open>equationFor\<close> have a square as numerator and as divisor. With a zero
  divisor the quotient is \<open>Infinity\<close> or \<open>NaN\<close>, and so are the sum, the difference with
  \<open>1\<close> and its absolute value; every comparison of such a value with a finite bound
  (\<open>< 1\<close>, \<open><= epsilon\<close>) is false.
\<close>

definition equationFor :: "'m EllipseShape_scheme \<Rightarrow> Point \<Rightarrow> real option" where
  "equationFor this point =
     (case js_div ((x_of point - x_of (center this))\<^sup>2) ((semi_a this)\<^sup>2) of
        None \<Rightarrow> None
      | Some u \<Rightarrow>
          (case js_div ((y_of point - y_of (center this))\<^sup>2) ((semi_b this)\<^sup>2) of
             None \<Rightarrow> None
           | Some v \<Rightarrow> Some (u + v)))"

definition EllipseShape_intersects ::
  "globals \<Rightarrow> 'm EllipseShape_scheme \<Rightarrow> Point \<Rightarrow> real option \<Rightarrow> bool" where
  "EllipseShape_intersects g this point epsilon =
     (case equationFor this point of
        None \<Rightarrow> False
      | Some v \<Rightarrow> \<bar>v - 1\<bar> \<le> epsilon_or_default g epsilon)"

definition EllipseShape_contains :: "'m EllipseShape_scheme \<Rightarrow> Point \<Rightarrow> bool" where
  "EllipseShape_contains this point =
     (case equationFor this point of None \<Rightarrow> False | Some v \<Rightarrow> v < 1)"

section \<open>The spec's boundary test of the ellipse\<close>



section \<open>Auxiliary notions for the proofs\<close>



section \<open>Basic facts\<close>

declare contains_loop.simps [simp del]

lemma distanceTo_commute: "distanceTo p q = distanceTo q p"
  by (simp add: distanceTo_def power2_commute)

lemma length_array_map [simp]: "length (array_map f xs) = length xs"
  by (simp add: array_map_def)

lemma nth_array_map [simp]: "i < length xs \<Longrightarrow> array_map f xs ! i = f (xs ! i) i xs"
  by (simp add: array_map_def)

lemma points_new [simp]: "points (new_SegmentedShape p1 p2 p3 rest) = p1 # p2 # p3 # rest"
  by (simp add: new_SegmentedShape_def Let_def)

lemma segments_new:
  "segments (new_SegmentedShape p1 p2 p3 rest)
     = array_map (\<lambda>p i pts. Segment p (next_point i pts)) (p1 # p2 # p3 # rest)"
  by (simp add: new_SegmentedShape_def Let_def)

lemma next_point_mod: "i < length pts \<Longrightarrow> next_point i pts = pts ! ((i + 1) mod length pts)"
proof (cases "i = length pts - 1")
  case True
  assume "i < length pts"
  with True have "i + 1 = length pts" by simp
  with True show ?thesis by (simp add: next_point_def)
next
  case False
  assume "i < length pts"
  with False have "i + 1 < length pts" by simp
  with False show ?thesis by (simp add: next_point_def)
qed

lemma foldl_add_sum_list:
  "foldl (\<lambda>acc i. acc + g i) (a::real) is = a + sum_list (map g is)"
  by (induction "is" arbitrary: a) simp_all

lemma array_reduce_sum:
  "array_reduce (\<lambda>acc p i pts. acc + h p i pts) (0::real) xs
     = sum_list (map (\<lambda>i. h (xs ! i) i xs) [0 ..< length xs])"
  by (simp add: array_reduce_def foldl_add_sum_list)

section \<open>Ray casting and the horizontal edge (C1)\<close>

text \<open>
  An edge whose endpoints have the same \<open>y\<close> fails the first operand of \<open>&&\<close>, so the loop
  passes it without evaluating the quotient.
\<close>

lemma horizontal_edge_skipped:
  "i < length pts \<Longrightarrow> y_of (pts ! i) = y_of (pts ! j) \<Longrightarrow>
   contains_loop pts point i j hit = contains_loop pts point (Suc i) i hit"
  by (subst contains_loop.simps) simp

lemma contains_loop_Some: "\<exists>h. contains_loop pts point i j hit = Some h"
proof (induction pts point i j hit rule: contains_loop.induct)
  case (1 pts point i j hit)
  show ?case
  proof (cases "i < length pts")
    case False
    then show ?thesis by (subst contains_loop.simps) simp
  next
    case inside: True
    show ?thesis
    proof (cases "(y_of (pts ! i) > y_of point) \<noteq> (y_of (pts ! j) > y_of point)")
      case False
      with inside "1.IH"(2) show ?thesis by (subst contains_loop.simps) simp
    next
      case straddle: True
      then have nz: "y_of (pts ! j) - y_of (pts ! i) \<noteq> 0" by auto
      define q where "q = (x_of (pts ! j) - x_of (pts ! i)) * (y_of point - y_of (pts ! i))
                           / (y_of (pts ! j) - y_of (pts ! i))"
      have d: "js_div ((x_of (pts ! j) - x_of (pts ! i)) * (y_of point - y_of (pts ! i)))
                 (y_of (pts ! j) - y_of (pts ! i)) = Some q"
        using nz by (simp add: js_div_def q_def)
      from "1.IH"(1) [OF inside straddle d]
      obtain h where "contains_loop pts point (Suc i) i
                  (if x_of point < q + x_of (pts ! i) then \<not> hit else hit) = Some h" by blast
      with inside straddle d show ?thesis by (subst contains_loop.simps) simp
    qed
  qed
qed

text \<open>
  Claim C1, as amended. The quotient by \<open>points[j].y - points[i].y\<close> is guarded by the
  first operand of \<open>&&\<close>: for every SegmentedShape, with or without horizontal edges, and
  every test point, \<open>contains\<close> returns its parity flag without ever dividing by zero.
\<close>

theorem contains_never_divides_by_zero:
  "\<exists>hit. SegmentedShape_contains s point = Some hit"
  by (simp add: SegmentedShape_contains_def contains_loop_Some)

text \<open>
  The claim as stated asks for a SegmentedShape with a horizontal edge and a test point
  at which \<open>contains\<close> divides by zero. There is none.
\<close>

theorem horizontal_edge_division_counterexample:
  "\<not> (\<exists>p1 p2 p3 rest point.
        (\<exists>i < length (p1 # p2 # p3 # rest).
           y_of ((p1 # p2 # p3 # rest) ! i) = y_of (next_point i (p1 # p2 # p3 # rest)))
        \<and> SegmentedShape_contains (new_SegmentedShape p1 p2 p3 rest) point = None)"
  using contains_loop_Some by (auto simp: SegmentedShape_contains_def)

text \<open>
  The rectangle of the README has two horizontal edges; the two tests of the README on
  it evaluate without a division by zero, to the expected answers.
\<close>

lemma rectangle_contains_inside:
  "SegmentedShape_contains (new_RectangleShape (Point 0 20) (Point 30 0)) (Point 10 10) = Some True"
  by (simp add: SegmentedShape_contains_def new_RectangleShape_def new_SegmentedShape_def
      Let_def contains_loop.simps js_div_def)

lemma rectangle_contains_outside:
  "SegmentedShape_contains (new_RectangleShape (Point 0 20) (Point 30 0)) (Point 10 21) = Some False"
  by (simp add: SegmentedShape_contains_def new_RectangleShape_def new_SegmentedShape_def
      Let_def contains_loop.simps js_div_def)

section \<open>Perimeter of ellipse and circle (C2)\<close>

text \<open>
  Claim C2. For every EllipseShape built by \<open>new EllipseShape(center, a, b)\<close>, whatever
  \<open>a\<close> and \<open>b\<close> (equal or not), \<open>perimeter\<close> throws the error of the unsupported operation
  and returns no value; for every \<open>new CircleShape(center, r)\<close>, \<open>perimeter\<close> returns
  \<open>2 * pi * r\<close>.
\<close>

theorem ellipse_perimeter_unsupported_circle_closed_form:
  "EllipseShape_perimeter (new_EllipseShape c a b) = Inl (Error ''too hard to handle!'')
   \<and> CircleShape_perimeter (new_CircleShape c r) = Inr (2 * pi * r)"
  by (simp add: EllipseShape_perimeter_def CircleShape_perimeter_def new_CircleShape_def)

section \<open>Sign of the area (C3)\<close>




section \<open>Boundary test of the ellipse (C4)\<close>





section \<open>Boundary test of the segment (C5)\<close>

text \<open>
  Claim C5. For every segment with endpoints \<open>a\<close>, \<open>b\<close>, every point \<open>p\<close> and every epsilon
  (explicit, or the default when omitted), \<open>intersects\<close> holds iff
  \<open>|dist(a,p) + dist(p,b) - dist(a,b)| < epsilon\<close>. The comparison is strict: with epsilon
  exactly that deviation, the point is not contained.
\<close>

theorem Segment_intersects_strict:
  "Segment_intersects g (Segment a b) p eps
     = (\<bar>distanceTo a p + distanceTo p b - distanceTo a b\<bar> < epsilon_or_default g eps)
   \<and> Segment_intersects g (Segment a b) p (Some epsilon)
     = (\<bar>distanceTo a p + distanceTo p b - distanceTo a b\<bar> < epsilon)
   \<and> \<not> Segment_intersects g (Segment a b) p
         (Some \<bar>distanceTo a p + distanceTo p b - distanceTo a b\<bar>)"
  by (simp add: Segment_intersects_def epsilon_or_default_def distanceTo_commute [of b p])

section \<open>Indexed access (C6)\<close>

text \<open>
  Claim C6. On every SegmentedShape, \<open>pointAt(i)\<close> and \<open>segmentAt(i)\<close> throw the RangeError
  exactly when \<open>i >= points.length\<close>, which is \<open>i >= segments.length\<close>; for an index from
  \<open>0\<close> up to the length they return the stored point and segment at that index; a
  negative index is not rejected: nothing is thrown, and the read yields \<open>undefined\<close>.
\<close>

theorem safeAt_upper_bound_only:
  "(pointAt (new_SegmentedShape p1 p2 p3 rest) i = Inl (RangeError ''out of range access''))
     = (i \<ge> int (length (points (new_SegmentedShape p1 p2 p3 rest))))
   \<and> (segmentAt (new_SegmentedShape p1 p2 p3 rest) i = Inl (RangeError ''out of range access''))
     = (i \<ge> int (length (points (new_SegmentedShape p1 p2 p3 rest))))
   \<and> (i \<ge> int (length (points (new_SegmentedShape p1 p2 p3 rest))))
     = (i \<ge> int (length (segments (new_SegmentedShape p1 p2 p3 rest))))
   \<and> (0 \<le> i \<and> i < int (length (points (new_SegmentedShape p1 p2 p3 rest))) \<longrightarrow>
        pointAt (new_SegmentedShape p1 p2 p3 rest) i
          = Inr (Some (points (new_SegmentedShape p1 p2 p3 rest) ! nat i))
        \<and> segmentAt (new_SegmentedShape p1 p2 p3 rest) i
          = Inr (Some (segments (new_SegmentedShape p1 p2 p3 rest) ! nat i)))
   \<and> (i < 0 \<longrightarrow>
        pointAt (new_SegmentedShape p1 p2 p3 rest) i = Inr None
        \<and> segmentAt (new_SegmentedShape p1 p2 p3 rest) i = Inr None)"
  by (simp add: pointAt_def segmentAt_def safeAt_def segments_new)

text \<open>The triangle of the README at the indices \<open>2\<close>, \<open>3\<close> and \<open>-1\<close>.\<close>

theorem safeAt_upper_bound_only_witness:
  "pointAt (new_TriangleShape (Point 0 0) (Point 10 10) (Point 20 5)) 2 = Inr (Some (Point 20 5))
   \<and> segmentAt (new_TriangleShape (Point 0 0) (Point 10 10) (Point 20 5)) 2
       = Inr (Some (Segment (Point 20 5) (Point 0 0)))
   \<and> pointAt (new_TriangleShape (Point 0 0) (Point 10 10) (Point 20 5)) 3
       = Inl (RangeError ''out of range access'')
   \<and> segmentAt (new_TriangleShape (Point 0 0) (Point 10 10) (Point 20 5)) 3
       = Inl (RangeError ''out of range access'')
   \<and> pointAt (new_TriangleShape (Point 0 0) (Point 10 10) (Point 20 5)) (- 1) = Inr None
   \<and> segmentAt (new_TriangleShape (Point 0 0) (Point 10 10) (Point 20 5)) (- 1) = Inr None"
  using safeAt_upper_bound_only [of "Point 0 0" "Point 10 10" "Point 20 5" "[]" 2]
    safeAt_upper_bound_only [of "Point 0 0" "Point 10 10" "Point 20 5" "[]" 3]
    safeAt_upper_bound_only [of "Point 0 0" "Point 10 10" "Point 20 5" "[]" "- 1"]
  by (simp add: new_TriangleShape_def segments_new next_point_def)

section \<open>Area and the direction of traversal (C7)\<close>













lemma rectangle_area_example:
  "SegmentedShape_area (new_RectangleShape (Point 0 20) (Point 30 0)) = 600"
  by (simp add: SegmentedShape_area_def new_RectangleShape_def new_SegmentedShape_def
      array_reduce_def array_map_def next_point_def Let_def upt_rec)

lemma reversed_rectangle_area_example:
  "SegmentedShape_area (new_SegmentedShape (Point 0 0) (Point 30 0) (Point 30 20) [Point 0 20]) = 600"
  by (simp add: SegmentedShape_area_def new_SegmentedShape_def
      array_reduce_def array_map_def next_point_def Let_def upt_rec)

section \<open>Perimeter and the segment list (C8)\<close>

text \<open>
  Claim C8. For every SegmentedShape, \<open>perimeter\<close>, a fold over the points and their
  successors, equals the sum of \<open>segments[i].length\<close> over all segments of the shape.
\<close>

theorem perimeter_is_sum_of_segment_lengths:
  "SegmentedShape_perimeter (new_SegmentedShape p1 p2 p3 rest)
     = sum_list (map Segment_length (segments (new_SegmentedShape p1 p2 p3 rest)))
   \<and> SegmentedShape_perimeter (new_SegmentedShape p1 p2 p3 rest)
     = (\<Sum>i < length (segments (new_SegmentedShape p1 p2 p3 rest)).
          Segment_length (segments (new_SegmentedShape p1 p2 p3 rest) ! i))"
proof -
  let ?s = "new_SegmentedShape p1 p2 p3 rest"
  let ?pts = "p1 # p2 # p3 # rest"
  have per: "SegmentedShape_perimeter ?s
      = sum_list (map (\<lambda>i. distanceTo (?pts ! i) (next_point i ?pts)) [0 ..< length ?pts])"
    unfolding SegmentedShape_perimeter_def Let_def points_new by (rule array_reduce_sum)
  have segs: "map Segment_length (segments ?s)
      = map (\<lambda>i. distanceTo (?pts ! i) (next_point i ?pts)) [0 ..< length ?pts]"
    by (simp add: segments_new array_map_def Segment_length_def comp_def)
  have first: "SegmentedShape_perimeter ?s = sum_list (map Segment_length (segments ?s))"
    by (simp only: per segs)
  have "sum_list (map Segment_length (segments ?s))
      = (\<Sum>i < length (segments ?s). Segment_length (segments ?s ! i))"
    by (simp add: sum_list_sum_nth atLeast0LessThan)
  with first show ?thesis by simp
qed

section \<open>Segments of a constructed shape (C9)\<close>

text \<open>
  Claim C9. A SegmentedShape constructed from \<open>N = 3 + |rest|\<close> points has \<open>N\<close> points and
  \<open>N\<close> segments, and segment \<open>i\<close> joins point \<open>i\<close> to point \<open>(i + 1) mod N\<close>. The
  constructors of RectangleShape, SquareShape and TriangleShape pass their points to this
  constructor, so the same holds of them.
\<close>

theorem segments_wraparound:
  "length (segments (new_SegmentedShape p1 p2 p3 rest))
     = length (points (new_SegmentedShape p1 p2 p3 rest))
   \<and> length (points (new_SegmentedShape p1 p2 p3 rest)) = 3 + length rest
   \<and> (\<forall>i < 3 + length rest.
        segments (new_SegmentedShape p1 p2 p3 rest) ! i
          = Segment (points (new_SegmentedShape p1 p2 p3 rest) ! i)
              (points (new_SegmentedShape p1 p2 p3 rest) ! ((i + 1) mod (3 + length rest))))"
  by (simp add: segments_new next_point_mod)

text \<open>The last side of the README's triangle goes from its third point back to its first.\<close>

theorem segments_wraparound_witness:
  "(2::nat) < 3 + length ([]::Point list)
   \<and> segments (new_TriangleShape (Point 0 0) (Point 10 10) (Point 20 5)) ! 2
       = Segment (Point 20 5) (Point 0 0)
   \<and> length (segments (new_TriangleShape (Point 0 0) (Point 10 10) (Point 20 5))) = 3"
  using segments_wraparound [of "Point 0 0" "Point 10 10" "Point 20 5" "[]"]
  by (simp add: new_TriangleShape_def)

lemma subclass_constructors:
  "new_RectangleShape topLeft bottomRight
     = new_SegmentedShape topLeft (Point (x_of bottomRight) (y_of topLeft)) bottomRight
         [Point (x_of topLeft) (y_of bottomRight)]"
  "new_SquareShape topLeft side
     = new_SegmentedShape topLeft (Point (x_of topLeft + side) (y_of topLeft))
         (Point (x_of topLeft + side) (y_of topLeft - side))
         [Point (x_of topLeft) (y_of topLeft - side)]"
  "new_TriangleShape a b c = new_SegmentedShape a b c []"
  by (simp_all add: new_RectangleShape_def new_SquareShape_def new_TriangleShape_def)

lemma square_segments_example:
  "segments (new_SquareShape (Point 0 10) 10)
     = [Segment (Point 0 10) (Point 10 10), Segment (Point 10 10) (Point 10 0),
        Segment (Point 10 0) (Point 0 0), Segment (Point 0 0) (Point 0 10)]"
  by (simp add: new_SquareShape_def new_RectangleShape_def segments_new array_map_def
      next_point_def upt_rec)

section \<open>The global tolerance and an explicit epsilon (C10)\<close>

text \<open>
  Claim C10. With an explicit epsilon, the boundary test of a Segment, a SegmentedShape
  and an EllipseShape (a CircleShape included) gives the same answer under any two values
  of the globals: \<open>setEpsilon\<close> has no influence on such a call.
\<close>

theorem explicit_epsilon_ignores_default:
  "Segment_intersects g1 s p (Some e) = Segment_intersects g2 s p (Some e)
   \<and> SegmentedShape_intersects g1 sh p (Some e) = SegmentedShape_intersects g2 sh p (Some e)
   \<and> EllipseShape_intersects g1 el p (Some e) = EllipseShape_intersects g2 el p (Some e)"
  by (simp add: Segment_intersects_def SegmentedShape_intersects_def
      EllipseShape_intersects_def epsilon_or_default_def split: option.split)

text \<open>A call that omits epsilon does depend on the tolerance set last.\<close>

lemma omitted_epsilon_reads_default:
  "\<not> Segment_intersects initial_globals (Segment (Point 0 0) (Point 0 0)) (Point 1 0) None
   \<and> Segment_intersects (setEpsilon 3 initial_globals)
       (Segment (Point 0 0) (Point 0 0)) (Point 1 0) None"
  by (simp add: Segment_intersects_def epsilon_or_default_def initial_globals_def
      setEpsilon_def distanceTo_def)

end
